theory Spec2Isabelle
  imports Main "HOL-Library.Char_ord" "HOL-Library.List_Lexorder" "HOL-Library.Multiset"
begin

section \<open>Values and exceptions\<close>

text \<open>
  Python values that cross the boundaries of the program (cache payloads, keyword
  arguments, decoded service responses) are JSON values. Python's \<^verbatim>\<open>None\<close> is
  \<open>JNull\<close>; a \<^verbatim>\<open>dict\<close> is the list of its items, in insertion order.
\<close>

datatype json =
    JNull
  | JBool bool
  | JInt int
  | JStr string
  | JArr "json list"
  | JObj "(string \<times> json) list"

text \<open>The exceptions the modelled code raises or lets through.\<close>

datatype error =
    RateLimitError
  | APIError string
  | IndexError
  | KeyError string
  | TypeError
  | AttributeError
  | ValueError
  | OSError
  | RuntimeError
  | RecursionError

text \<open>Truth value of a Python object, as \<^verbatim>\<open>if x:\<close> tests it.\<close>

fun truthy :: "json \<Rightarrow> bool" where
  "truthy JNull = False"
| "truthy (JBool b) = b"
| "truthy (JInt n) = (n \<noteq> 0)"
| "truthy (JStr s) = (s \<noteq> [])"
| "truthy (JArr xs) = (xs \<noteq> [])"
| "truthy (JObj kvs) = (kvs \<noteq> [])"

section \<open>utils/token\_counter.py\<close>

record TokenUsage =
  input_tokens :: int
  output_tokens :: int
  total_tokens :: int

text \<open>\<^verbatim>\<open>TokenUsage()\<close>: the dataclass defaults.\<close>

definition TokenUsage_new :: TokenUsage where
  "TokenUsage_new = \<lparr>input_tokens = 0, output_tokens = 0, total_tokens = 0\<rparr>"

text \<open>\<^verbatim>\<open>TokenUsage.add\<close>; the mutated object is returned.\<close>

definition add :: "TokenUsage \<Rightarrow> int \<Rightarrow> int \<Rightarrow> TokenUsage" where
  "add u i out =
     \<lparr>input_tokens = input_tokens u + i,
      output_tokens = output_tokens u + out,
      total_tokens = total_tokens u + (i + out)\<rparr>"

record TokenCounter =
  usage_by_agent :: "string \<rightharpoonup> TokenUsage"
  total_usage :: TokenUsage

text \<open>\<^verbatim>\<open>TokenCounter()\<close>: an empty dict and a zero total.\<close>

definition TokenCounter_new :: TokenCounter where
  "TokenCounter_new = \<lparr>usage_by_agent = Map.empty, total_usage = TokenUsage_new\<rparr>"

text \<open>
  \<^verbatim>\<open>TokenCounter.track\<close>. The \<^verbatim>\<open>model\<close> argument is accepted and not used, as in
  the source.
\<close>

definition track :: "TokenCounter \<Rightarrow> string \<Rightarrow> string \<Rightarrow> int \<Rightarrow> int \<Rightarrow> TokenCounter" where
  "track tc agent_name model i out =
     (let by_agent =
            (if agent_name \<notin> dom (usage_by_agent tc)
             then (usage_by_agent tc)(agent_name \<mapsto> TokenUsage_new)
             else usage_by_agent tc);
          by_agent' =
            (case by_agent agent_name of
               Some u \<Rightarrow> by_agent(agent_name \<mapsto> add u i out)
             | None \<Rightarrow> by_agent)
      in \<lparr>usage_by_agent = by_agent', total_usage = add (total_usage tc) i out\<rparr>)"


section \<open>External collaborators\<close>

text \<open>
  The text-generation service answers a request with a message or raises. A message holds
  its content blocks (here their texts) and the token usage.
\<close>

record message =
  content :: "string list"
  usage_input_tokens :: int
  usage_output_tokens :: int

datatype outcome = Returns message | Raises error

record request =
  req_model :: string
  req_max_tokens :: int
  req_content :: string
  req_extra :: "(string \<times> json) list"

text \<open>
  What the program calls and does not define. \<open>service n rq\<close> is the outcome of
  \<^verbatim>\<open>client.messages.create\<close> when \<open>n\<close> calls were made before it;
  \<open>json_loads\<close> is \<^verbatim>\<open>json.loads\<close> on a string, which returns the value
  parsed, raises \<^verbatim>\<open>JSONDecodeError\<close>, or raises something else
  (\<^verbatim>\<open>RecursionError\<close> on deep nesting, \<^verbatim>\<open>ValueError\<close> on an integer of too
  many digits); \<open>digest v\<close> is the MD5 hex digest of the text that
  \<^verbatim>\<open>json.dumps\<close> writes for \<open>v\<close> with the items of each object in the order given;
  \<open>py_str\<close> is \<^verbatim>\<open>str\<close>, as an f-string applies it. The remaining fields are the
  prompt and role templates of the agents, which are plain text around their arguments.
\<close>

datatype loads_result = Parsed json | JSONDecodeError | Raised error

record env =
  service :: "nat \<Rightarrow> request \<Rightarrow> outcome"
  json_loads :: "string \<Rightarrow> loads_result"
  digest :: "json \<Rightarrow> string"
  py_str :: "json \<Rightarrow> string"
  lead_role :: string
  lead_prompt :: "string \<Rightarrow> string"
  analyst_role :: "json \<Rightarrow> string"
  content_prompt :: "json \<Rightarrow> string \<Rightarrow> string"
  knowledge_prompt :: "json \<Rightarrow> string"

text \<open>\<^verbatim>\<open>config/settings.py\<close>: the class attributes the modelled code reads.\<close>

record Settings =
  ENABLE_CACHING :: bool
  VERBOSE :: bool
  MAX_RETRIES :: int
  RETRY_DELAY :: int
  DEFAULT_MODEL :: string
  LEAD_AGENT_MODEL :: string
  SUB_AGENT_MODEL :: string
  SYNTHESIS_AGENT_MODEL :: string
  MAX_TOKENS_LEAD_AGENT :: int
  MAX_TOKENS_SUB_AGENT :: int
  MAX_TOKENS_SYNTHESIS :: int

definition get_model_for_agent :: "Settings \<Rightarrow> string \<Rightarrow> string" where
  "get_model_for_agent S agent_type =
     (if agent_type = ''lead'' then LEAD_AGENT_MODEL S
      else if agent_type = ''sub'' then SUB_AGENT_MODEL S
      else if agent_type = ''synthesis'' then SYNTHESIS_AGENT_MODEL S
      else DEFAULT_MODEL S)"

definition get_max_tokens_for_agent :: "Settings \<Rightarrow> string \<Rightarrow> int" where
  "get_max_tokens_for_agent S agent_type =
     (if agent_type = ''lead'' then MAX_TOKENS_LEAD_AGENT S
      else if agent_type = ''sub'' then MAX_TOKENS_SUB_AGENT S
      else if agent_type = ''synthesis'' then MAX_TOKENS_SYNTHESIS S
      else 4000)"

section \<open>The world outside the process\<close>

text \<open>
  A cache file, as \<^verbatim>\<open>Cache.get\<close> sees it: \<open>Garbage\<close> is content on which
  \<^verbatim>\<open>json.load\<close> raises \<^verbatim>\<open>JSONDecodeError\<close>; \<open>Doc st v\<close> is a JSON object whose
  \<^verbatim>\<open>'timestamp'\<close> is missing (\<open>NoStamp\<close>), is not an ISO date (\<open>BadStamp\<close>) or
  is the time \<open>Stamp t\<close>, and whose \<^verbatim>\<open>'value'\<close> is \<open>v\<close> (\<open>None\<close> when the key is
  missing). Times are microseconds; \<^verbatim>\<open>isoformat\<close> followed by
  \<^verbatim>\<open>fromisoformat\<close>, and \<^verbatim>\<open>json.dump\<close> followed by \<^verbatim>\<open>json.load\<close>, give back
  what was written.
\<close>

datatype stamp = NoStamp | BadStamp | Stamp int

datatype cache_file = Garbage | Doc stamp "json option"

text \<open>
  \<open>files\<close> maps a path to the file there; \<open>writable\<close> is whether opening a file for
  writing succeeds; the \<open>n\<close>-th reading of \<^verbatim>\<open>datetime.now()\<close> is \<open>clock n\<close> and
  \<open>ticks\<close> counts the readings made; \<open>calls\<close> counts the calls to the service;
  \<open>sleeps\<close> lists the arguments of \<^verbatim>\<open>time.sleep\<close> so far.
\<close>

record world =
  files :: "string \<rightharpoonup> cache_file"
  writable :: bool
  clock :: "nat \<Rightarrow> int"
  ticks :: nat
  calls :: nat
  sleeps :: "int list"

definition now :: "world \<Rightarrow> int" where
  "now w = clock w (ticks w)"

definition tick :: "world \<Rightarrow> world" where
  "tick w = w\<lparr>ticks := Suc (ticks w)\<rparr>"

section \<open>utils/cache.py\<close>

record Cache =
  cache_dir :: string
  ttl_hours :: int

definition Cache_new :: "string \<Rightarrow> Cache" where
  "Cache_new dir = \<lparr>cache_dir = dir, ttl_hours = 24\<rparr>"

text \<open>\<^verbatim>\<open>timedelta(hours=ttl_hours)\<close>, in microseconds.\<close>

definition ttl :: "Cache \<Rightarrow> int" where
  "ttl c = ttl_hours c * 3600000000"

text \<open>
  \<^verbatim>\<open>json.dumps(..., sort_keys=True)\<close> writes the items of every object in the order of
  their keys.
\<close>

fun sort_keys :: "json \<Rightarrow> json" where
  "sort_keys (JObj kvs) = JObj (sort_key fst (map (\<lambda>kv. (fst kv, sort_keys (snd kv))) kvs))"
| "sort_keys (JArr xs) = JArr (map sort_keys xs)"
| "sort_keys v = v"

definition get_cache_key :: "env \<Rightarrow> json list \<Rightarrow> (string \<times> json) list \<Rightarrow> string" where
  "get_cache_key E args kwargs =
     digest E (sort_keys (JObj [(''args'', JArr args), (''kwargs'', JObj kwargs)]))"

definition get_cache_path :: "Cache \<Rightarrow> string \<Rightarrow> string" where
  "get_cache_path c cache_key = cache_dir c @ ''/'' @ cache_key @ ''.json''"

text \<open>\<^verbatim>\<open>Cache.get\<close>: the value, or \<open>JNull\<close> for \<^verbatim>\<open>None\<close>, and the world after it.\<close>

definition cache_get ::
  "env \<Rightarrow> Cache \<Rightarrow> json list \<Rightarrow> (string \<times> json) list \<Rightarrow> world \<Rightarrow> json \<times> world" where
  "cache_get E c args kwargs w =
     (let cache_path = get_cache_path c (get_cache_key E args kwargs) in
      case files w cache_path of
        None \<Rightarrow> (JNull, w)
      | Some Garbage \<Rightarrow> (JNull, w)
      | Some (Doc NoStamp v) \<Rightarrow> (JNull, w)
      | Some (Doc BadStamp v) \<Rightarrow> (JNull, w)
      | Some (Doc (Stamp cached_time) v) \<Rightarrow>
          (let w1 = tick w in
           if now w - cached_time > ttl c
           then (JNull, w1\<lparr>files := (files w1)(cache_path := None)\<rparr>)
           else (case v of None \<Rightarrow> (JNull, w1) | Some x \<Rightarrow> (x, w1))))"

text \<open>
  \<^verbatim>\<open>Cache.set\<close>: the time is read first, then the file is opened for writing, which
  raises \<^verbatim>\<open>OSError\<close> when the storage refuses.
\<close>

definition cache_set ::
  "env \<Rightarrow> Cache \<Rightarrow> json \<Rightarrow> json list \<Rightarrow> (string \<times> json) list \<Rightarrow> world
     \<Rightarrow> (error + unit) \<times> world" where
  "cache_set E c v args kwargs w =
     (let cache_path = get_cache_path c (get_cache_key E args kwargs);
          stamp = now w;
          w1 = tick w
      in if writable w1
         then (Inr (), w1\<lparr>files := (files w1)(cache_path \<mapsto> Doc (Stamp stamp) (Some v))\<rparr>)
         else (Inl OSError, w1))"

section \<open>agents/base\_agent.py\<close>

record BaseAgent =
  name :: string
  role :: string
  agent_type :: string
  cache :: "Cache option"
  model :: string
  max_tokens :: int

text \<open>\<^verbatim>\<open>BaseAgent.__init__\<close>.\<close>

definition BaseAgent_init ::
  "Settings \<Rightarrow> string \<Rightarrow> string \<Rightarrow> string \<Rightarrow> Cache option \<Rightarrow> BaseAgent" where
  "BaseAgent_init S nm rl ty ch =
     \<lparr>name = nm, role = rl, agent_type = ty, cache = ch,
      model = get_model_for_agent S ty, max_tokens = get_max_tokens_for_agent S ty\<rparr>"

text \<open>
  The keyword arguments that \<^verbatim>\<open>invoke\<close> passes on: \<^verbatim>\<open>max_retries\<close>, which
  \<^verbatim>\<open>_call_api_with_retry\<close> takes for itself, \<^verbatim>\<open>max_tokens\<close>, and the others, which go
  to the service as they are.
\<close>

record call_opts =
  kw_max_retries :: "int option"
  kw_max_tokens :: "int option"
  kw_other :: "(string \<times> json) list"

definition no_opts :: call_opts where
  "no_opts = \<lparr>kw_max_retries = None, kw_max_tokens = None, kw_other = []\<rparr>"

definition newline :: string where
  "newline = [CHR 0x0A]"

text \<open>\<^verbatim>\<open>sep.join(parts)\<close>.\<close>

fun join :: "string \<Rightarrow> string list \<Rightarrow> string" where
  "join sep [] = []"
| "join sep [x] = x"
| "join sep (x # y # ys) = x @ sep @ join sep (y # ys)"

definition build_prompt :: "BaseAgent \<Rightarrow> string \<Rightarrow> string \<Rightarrow> string" where
  "build_prompt ag prompt context =
     join (newline @ newline)
       ([role ag]
        @ (if context \<noteq> [] then [newline @ ''Context:'' @ newline @ context] else [])
        @ [newline @ ''Task:'' @ newline @ prompt])"

text \<open>
  \<^verbatim>\<open>time.sleep\<close> raises \<^verbatim>\<open>ValueError\<close> on a negative length.
\<close>

definition sleep :: "int \<Rightarrow> world \<Rightarrow> error + world" where
  "sleep secs w = (if secs < 0 then Inl ValueError else Inr (w\<lparr>sleeps := sleeps w @ [secs]\<rparr>))"

text \<open>
  The body of the \<^verbatim>\<open>for attempt in range(max_retries)\<close> loop of
  \<^verbatim>\<open>_call_api_with_retry\<close>, over the attempt numbers still to run, and the two
  \<^verbatim>\<open>raise\<close> statements after the loop. An empty content list makes
  \<^verbatim>\<open>message.content[0]\<close> raise \<^verbatim>\<open>IndexError\<close>, which the second handler raises
  again.
\<close>

fun attempts ::
  "env \<Rightarrow> Settings \<Rightarrow> request \<Rightarrow> int \<Rightarrow> nat list \<Rightarrow> error option \<Rightarrow> world
     \<Rightarrow> (error + string \<times> int \<times> int) \<times> world" where
  "attempts E S rq max_retries [] last_exception w =
     (case last_exception of
        Some e \<Rightarrow> (Inl e, w)
      | None \<Rightarrow> (Inl RuntimeError, w))"
| "attempts E S rq max_retries (attempt # rest) last_exception w =
     (let w1 = w\<lparr>calls := Suc (calls w)\<rparr> in
      case service E (calls w) rq of
        Returns msg \<Rightarrow>
          (case content msg of
             [] \<Rightarrow> (Inl IndexError, w1)
           | response_text # others \<Rightarrow>
               (Inr (response_text, usage_input_tokens msg, usage_output_tokens msg), w1))
      | Raises e \<Rightarrow>
          if e = RateLimitError then
            if int attempt < max_retries - 1 then
              (case sleep (RETRY_DELAY S * (int attempt + 1)) w1 of
                 Inl e' \<Rightarrow> (Inl e', w1)
               | Inr w2 \<Rightarrow> attempts E S rq max_retries rest (Some e) w2)
            else (Inl e, w1)
          else (Inl e, w1))"

text \<open>\<^verbatim>\<open>max_retries or Settings.MAX_RETRIES\<close>.\<close>

definition effective_max_retries :: "Settings \<Rightarrow> call_opts \<Rightarrow> int" where
  "effective_max_retries S opts =
     (case kw_max_retries opts of
        Some n \<Rightarrow> if n \<noteq> 0 then n else MAX_RETRIES S
      | None \<Rightarrow> MAX_RETRIES S)"

definition make_request :: "BaseAgent \<Rightarrow> string \<Rightarrow> call_opts \<Rightarrow> request" where
  "make_request ag prompt opts =
     \<lparr>req_model = model ag,
      req_max_tokens = (case kw_max_tokens opts of Some n \<Rightarrow> n | None \<Rightarrow> max_tokens ag),
      req_content = prompt,
      req_extra = kw_other opts\<rparr>"

definition call_api_with_retry ::
  "env \<Rightarrow> Settings \<Rightarrow> BaseAgent \<Rightarrow> string \<Rightarrow> call_opts \<Rightarrow> world
     \<Rightarrow> (error + string \<times> int \<times> int) \<times> world" where
  "call_api_with_retry E S ag prompt opts w =
     (let max_retries = effective_max_retries S opts in
      attempts E S (make_request ag prompt opts) max_retries [0..<nat max_retries] None w)"

text \<open>\<^verbatim>\<open>d[k]\<close> on a Python object.\<close>

fun subscript :: "json \<Rightarrow> string \<Rightarrow> error + json" where
  "subscript (JObj kvs) k = (case map_of kvs k of Some v \<Rightarrow> Inr v | None \<Rightarrow> Inl (KeyError k))"
| "subscript v k = Inl TypeError"

definition key_parts :: "BaseAgent \<Rightarrow> string \<Rightarrow> string \<Rightarrow> (string \<times> json) list" where
  "key_parts ag prompt context =
     [(''agent_name'', JStr (name ag)), (''prompt'', JStr prompt), (''context'', JStr context)]"

text \<open>\<^verbatim>\<open>use_cache and self.cache and Settings.ENABLE_CACHING\<close>.\<close>

definition caching :: "Settings \<Rightarrow> BaseAgent \<Rightarrow> bool \<Rightarrow> Cache option" where
  "caching S ag use_cache = (if use_cache \<and> ENABLE_CACHING S then cache ag else None)"

text \<open>
  \<^verbatim>\<open>BaseAgent.invoke\<close>. The text of a cache hit is whatever the file holds under
  \<^verbatim>\<open>'text'\<close>, so the returned text is a JSON value.
\<close>

definition invoke ::
  "env \<Rightarrow> Settings \<Rightarrow> BaseAgent \<Rightarrow> string \<Rightarrow> string \<Rightarrow> bool \<Rightarrow> call_opts \<Rightarrow> world
     \<Rightarrow> (error + json \<times> int \<times> int) \<times> world" where
  "invoke E S ag prompt context use_cache opts w =
     (let (cached_response, w1) =
            (case caching S ag use_cache of
               Some c \<Rightarrow> cache_get E c [] (key_parts ag prompt context) w
             | None \<Rightarrow> (JNull, w))
      in if truthy cached_response then
           (case subscript cached_response ''text'' of
              Inl e \<Rightarrow> (Inl e, w1)
            | Inr txt \<Rightarrow> (Inr (txt, 0, 0), w1))
         else
           (case call_api_with_retry E S ag (build_prompt ag prompt context) opts w1 of
              (Inl e, w2) \<Rightarrow> (Inl e, w2)
            | (Inr (response_text, i, out), w2) \<Rightarrow>
                (case caching S ag use_cache of
                   Some c \<Rightarrow>
                     (case cache_set E c
                             (JObj [(''text'', JStr response_text),
                                    (''input_tokens'', JInt i),
                                    (''output_tokens'', JInt out)])
                             [] (key_parts ag prompt context) w2 of
                        (Inl e, w3) \<Rightarrow> (Inl e, w3)
                      | (Inr u, w3) \<Rightarrow> (Inr (JStr response_text, i, out), w3))
                 | None \<Rightarrow> (Inr (JStr response_text, i, out), w2))))"

text \<open>
  The file in which the cache keeps the result of one invocation, and whether the entry
  there is one that \<^verbatim>\<open>Cache.get\<close> would not find expired at the next reading of the
  clock.
\<close>

definition entry_path :: "env \<Rightarrow> Cache \<Rightarrow> BaseAgent \<Rightarrow> string \<Rightarrow> string \<Rightarrow> string" where
  "entry_path E c ag prompt context =
     get_cache_path c (get_cache_key E [] (key_parts ag prompt context))"

definition unexpired :: "Cache \<Rightarrow> world \<Rightarrow> string \<Rightarrow> bool" where
  "unexpired c w p =
     (case files w p of
        Some (Doc (Stamp t) v) \<Rightarrow> \<not> now w - t > ttl c
      | _ \<Rightarrow> False)"

text \<open>
  \<^verbatim>\<open>text.find(c)\<close> and \<^verbatim>\<open>text.rfind(c)\<close> for a character: the first and the last
  index, or \<open>-1\<close>. The second argument is the index of the head of the list.
\<close>

fun find_from :: "char \<Rightarrow> string \<Rightarrow> int \<Rightarrow> int" where
  "find_from c [] i = -1"
| "find_from c (x # xs) i = (if x = c then i else find_from c xs (i + 1))"

fun rfind_from :: "char \<Rightarrow> string \<Rightarrow> int \<Rightarrow> int" where
  "rfind_from c [] i = -1"
| "rfind_from c (x # xs) i =
     (let r = rfind_from c xs (i + 1) in if r \<noteq> -1 then r else if x = c then i else -1)"

text \<open>\<^verbatim>\<open>text[start:end]\<close> for \<open>0 \<le> start\<close> and \<open>0 \<le> end\<close>.\<close>

definition slice :: "string \<Rightarrow> int \<Rightarrow> int \<Rightarrow> string" where
  "slice txt start stop = take (nat stop - nat start) (drop (nat start) txt)"

text \<open>
  The slice that one of the two fallbacks of \<^verbatim>\<open>extract_json\<close> parses: the text from
  the first \<open>opening\<close> to the last \<open>closing\<close> character, when there is one.
\<close>

definition outer_slice :: "char \<Rightarrow> char \<Rightarrow> string \<Rightarrow> string option" where
  "outer_slice opening closing txt =
     (let start = find_from opening txt 0;
          stop = rfind_from closing txt 0 + 1
      in if start \<noteq> -1 \<and> stop > start then Some (slice txt start stop) else None)"

text \<open>
  One fallback of \<^verbatim>\<open>extract_json\<close>: what \<^verbatim>\<open>json.loads\<close> does on the slice, or
  \<open>None\<close> when there is no slice and nothing is tried.
\<close>

definition between :: "env \<Rightarrow> char \<Rightarrow> char \<Rightarrow> string \<Rightarrow> loads_result option" where
  "between E opening closing txt =
     (case outer_slice opening closing txt of
        Some t \<Rightarrow> Some (json_loads E t)
      | None \<Rightarrow> None)"

text \<open>
  \<^verbatim>\<open>BaseAgent.extract_json\<close>. Each \<^verbatim>\<open>try\<close> catches \<^verbatim>\<open>json.JSONDecodeError\<close> and
  nothing else, so any other exception of \<^verbatim>\<open>json.loads\<close> leaves the method.
  \<^verbatim>\<open>json.loads\<close> raises \<^verbatim>\<open>TypeError\<close> on what is not a string; the result
  \<open>JNull\<close> is Python's \<^verbatim>\<open>None\<close>.
\<close>

definition extract_json :: "env \<Rightarrow> json \<Rightarrow> error + json" where
  "extract_json E txt =
     (case txt of
        JStr s \<Rightarrow>
          (case json_loads E s of
             Parsed v \<Rightarrow> Inr v
           | Raised e \<Rightarrow> Inl e
           | JSONDecodeError \<Rightarrow>
               (case between E (CHR ''{'') (CHR ''}'') s of
                  Some (Parsed v) \<Rightarrow> Inr v
                | Some (Raised e) \<Rightarrow> Inl e
                | _ \<Rightarrow>
                    (case between E (CHR ''['') (CHR '']'') s of
                       Some (Parsed v) \<Rightarrow> Inr v
                     | Some (Raised e) \<Rightarrow> Inl e
                     | _ \<Rightarrow> Inr JNull)))
      | _ \<Rightarrow> Inl TypeError)"


text \<open>\<^verbatim>\<open>len(x)\<close>.\<close>

fun py_len :: "json \<Rightarrow> error + nat" where
  "py_len (JStr s) = Inr (length s)"
| "py_len (JArr xs) = Inr (length xs)"
| "py_len (JObj kvs) = Inr (length kvs)"
| "py_len v = Inl TypeError"

text \<open>\<^verbatim>\<open>d.get(k, default)\<close> on a dict.\<close>

definition dict_get :: "(string \<times> json) list \<Rightarrow> string \<Rightarrow> json \<Rightarrow> json" where
  "dict_get kvs k d = (case map_of kvs k of Some v \<Rightarrow> v | None \<Rightarrow> d)"

section \<open>agents/lead\_agent.py\<close>




section \<open>agents/company\_analysis\_agent.py\<close>

record CompanyAnalysis =
  company :: json
  gen_ai_mentions :: json
  ml_mentions :: json
  capex_ai :: json
  cfo_quote :: json
  key_insights :: json
  documents_analyzed :: "json list"

record CompanyAnalysisAgent =
  base :: BaseAgent
  self_company :: json

definition CompanyAnalysisAgent_init ::
  "env \<Rightarrow> Settings \<Rightarrow> json \<Rightarrow> Cache option \<Rightarrow> CompanyAnalysisAgent" where
  "CompanyAnalysisAgent_init E S c ch =
     \<lparr>base = BaseAgent_init S (py_str E c @ ''Analyst'') (analyst_role E c) ''sub'' ch,
      self_company = c\<rparr>"

text \<open>The context that \<^verbatim>\<open>analyze_documents\<close> builds from the document URLs.\<close>

definition build_context :: "env \<Rightarrow> json \<Rightarrow> (string \<times> json) list \<Rightarrow> string" where
  "build_context E c document_urls =
     join newline
       ([''Analyzing: '' @ py_str E c]
        @ (if document_urls \<noteq> []
           then ''Document sources:''
                # map (\<lambda>(key, url). ''  - '' @ key @ '': '' @ py_str E url)
                    (filter (\<lambda>(key, url). truthy url \<and> url \<noteq> JStr ''N/A'') document_urls)
           else []))"

text \<open>The data that stands in for an analysis that could not be parsed.\<close>

definition error_data :: json where
  "error_data =
     JObj [(''gen_ai_mentions'', JInt 0),
           (''ml_mentions'', JInt 0),
           (''capex_ai'', JStr ''Error in analysis''),
           (''cfo_quote'', JStr ''Error in analysis''),
           (''key_insights'', JStr ''Analysis failed'')]"

text \<open>
  The \<^verbatim>\<open>CompanyAnalysis(...)\<close> call at the end of \<^verbatim>\<open>analyze_documents\<close>: every
  field is read with \<^verbatim>\<open>data.get\<close>, which only a dict has.
\<close>

definition make_analysis ::
  "json \<Rightarrow> json \<Rightarrow> (string \<times> json) list \<Rightarrow> error + CompanyAnalysis" where
  "make_analysis c data document_urls =
     (case data of
        JObj kvs \<Rightarrow>
          Inr \<lparr>company = c,
               gen_ai_mentions = dict_get kvs ''gen_ai_mentions'' (JInt 0),
               ml_mentions = dict_get kvs ''ml_mentions'' (JInt 0),
               capex_ai = dict_get kvs ''capex_ai'' (JStr ''Not disclosed''),
               cfo_quote = dict_get kvs ''cfo_quote'' (JStr ''No quote found''),
               key_insights = dict_get kvs ''key_insights'' (JStr []),
               documents_analyzed =
                 [dict_get document_urls ''tenk_url'' (JStr []),
                  dict_get document_urls ''earnings_transcript_url'' (JStr [])]\<rparr>
      | _ \<Rightarrow> Inl AttributeError)"

text \<open>
  The prompt of \<^verbatim>\<open>analyze_documents\<close>: the content-based one when document content
  is given and not empty, with the content cut to 30000 characters, else the
  knowledge-based one.
\<close>

definition analysis_prompt :: "env \<Rightarrow> json \<Rightarrow> string option \<Rightarrow> string" where
  "analysis_prompt E c document_content =
     (case document_content of
        Some d \<Rightarrow> if d \<noteq> [] then content_prompt E c (take 30000 d) else knowledge_prompt E c
      | None \<Rightarrow> knowledge_prompt E c)"

text \<open>\<^verbatim>\<open>CompanyAnalysisAgent.analyze_documents\<close>.\<close>

definition analyze_documents ::
  "env \<Rightarrow> Settings \<Rightarrow> CompanyAnalysisAgent \<Rightarrow> (string \<times> json) list \<Rightarrow> string option \<Rightarrow> world
     \<Rightarrow> (error + CompanyAnalysis \<times> int \<times> int) \<times> world" where
  "analyze_documents E S agent document_urls document_content w =
     (let context = build_context E (self_company agent) document_urls;
          prompt = analysis_prompt E (self_company agent) document_content
      in case invoke E S (base agent) prompt context True no_opts w of
           (Inl e, w1) \<Rightarrow> (Inl e, w1)
         | (Inr (response_text, i, out), w1) \<Rightarrow>
             (case extract_json E response_text of
                Inl e \<Rightarrow> (Inl e, w1)
              | Inr parsed \<Rightarrow>
                  (let data = (if parsed = JNull then error_data else parsed)
                   in case make_analysis (self_company agent) data document_urls of
                        Inl e \<Rightarrow> (Inl e, w1)
                      | Inr analysis \<Rightarrow> (Inr (analysis, i, out), w1))))"

section \<open>orchestrator.py\<close>

record Orchestrator =
  orch_cache :: "Cache option"
  token_counter :: TokenCounter
  models_used :: "string \<rightharpoonup> string"

text \<open>
  The preview line that phase 2 prints for each analysis:
  \<^verbatim>\<open>capex_ai[:60] + "..." if len(capex_ai) > 60 else capex_ai\<close>. Only a string can be
  sliced and extended by a string.
\<close>

definition capex_preview :: "json \<Rightarrow> error + unit" where
  "capex_preview v =
     (case py_len v of
        Inl e \<Rightarrow> Inl e
      | Inr n \<Rightarrow> if n > 60 then (case v of JStr s \<Rightarrow> Inr () | _ \<Rightarrow> Inl TypeError) else Inr ())"

text \<open>
  The loop of \<^verbatim>\<open>_phase_2_analyze_companies\<close> over the descriptors still to analyse,
  with the analyses collected so far. An exception leaves the loop and the method.
\<close>

fun analyze_companies ::
  "env \<Rightarrow> Settings \<Rightarrow> (string \<times> json) list list \<Rightarrow> CompanyAnalysis list \<Rightarrow> Orchestrator \<Rightarrow> world
     \<Rightarrow> (error + CompanyAnalysis list) \<times> Orchestrator \<times> world" where
  "analyze_companies E S [] analyses orch w = (Inr analyses, orch, w)"
| "analyze_companies E S (doc_info # rest) analyses orch w =
     (case map_of doc_info ''company'' of
        None \<Rightarrow> (Inl (KeyError ''company''), orch, w)
      | Some c \<Rightarrow>
          (let agent = CompanyAnalysisAgent_init E S c (orch_cache orch) in
           case analyze_documents E S agent doc_info None w of
             (Inl e, w1) \<Rightarrow> (Inl e, orch, w1)
           | (Inr (analysis, i, out), w1) \<Rightarrow>
               (let agent_name = py_str E c @ ''Analyst'';
                    orch1 = orch\<lparr>models_used := (models_used orch)(agent_name \<mapsto> SUB_AGENT_MODEL S),
                                 token_counter :=
                                   track (token_counter orch) agent_name (SUB_AGENT_MODEL S) i out\<rparr>
                in case (if VERBOSE S then capex_preview (capex_ai analysis) else Inr ()) of
                     Inl e \<Rightarrow> (Inl e, orch1, w1)
                   | Inr u \<Rightarrow> analyze_companies E S rest (analyses @ [analysis]) orch1 w1)))"

definition phase_2_analyze_companies ::
  "env \<Rightarrow> Settings \<Rightarrow> Orchestrator \<Rightarrow> (string \<times> json) list list \<Rightarrow> world
     \<Rightarrow> (error + CompanyAnalysis list) \<times> Orchestrator \<times> world" where
  "phase_2_analyze_companies E S orch document_locations w =
     analyze_companies E S document_locations [] orch w"


section \<open>Stub collaborators for concrete runs\<close>

text \<open>The defaults of \<^verbatim>\<open>config/settings.py\<close>, taken when the environment sets nothing.\<close>

definition Settings_default :: Settings where
  "Settings_default =
     \<lparr>ENABLE_CACHING = True, VERBOSE = True, MAX_RETRIES = 3, RETRY_DELAY = 2,
      DEFAULT_MODEL = ''claude-sonnet-4-5-20250929'',
      LEAD_AGENT_MODEL = ''claude-haiku-4-5-20250929'',
      SUB_AGENT_MODEL = ''claude-sonnet-4-5-20250929'',
      SYNTHESIS_AGENT_MODEL = ''claude-sonnet-4-5-20250929'',
      MAX_TOKENS_LEAD_AGENT = 2000, MAX_TOKENS_SUB_AGENT = 3000, MAX_TOKENS_SYNTHESIS = 6000\<rparr>"

text \<open>
  A stand-in digest that tells the callers apart: the first keyword value of the key data,
  which after sorting is the agent name. A stand-in for \<^verbatim>\<open>str\<close>, exact on strings.
\<close>

definition stub_digest :: "json \<Rightarrow> string" where
  "stub_digest v = (case v of JObj [a, (k, JObj ((k', JStr n) # r))] \<Rightarrow> n | _ \<Rightarrow> ''none'')"

definition stub_str :: "json \<Rightarrow> string" where
  "stub_str v = (case v of JStr s \<Rightarrow> s | _ \<Rightarrow> ''?'')"

definition stub_env :: "(nat \<Rightarrow> request \<Rightarrow> outcome) \<Rightarrow> (string \<Rightarrow> loads_result) \<Rightarrow> env" where
  "stub_env svc loads =
     \<lparr>service = svc, json_loads = loads, digest = stub_digest, py_str = stub_str,
      lead_role = ''locator'', lead_prompt = (\<lambda>cs. ''Locate: '' @ cs),
      analyst_role = (\<lambda>c. ''analyst''), content_prompt = (\<lambda>c d. ''Analyze: '' @ d),
      knowledge_prompt = (\<lambda>c. ''Recall'')\<rparr>"

text \<open>A service answer with one content block, 100 input and 50 output tokens.\<close>

definition reply :: "string \<Rightarrow> outcome" where
  "reply s = Returns \<lparr>content = [s], usage_input_tokens = 100, usage_output_tokens = 50\<rparr>"

text \<open>
  A service that always answers \<open>s\<close>, and one that always raises \<open>e\<close>; in both,
  \<^verbatim>\<open>json.loads\<close> raises \<^verbatim>\<open>JSONDecodeError\<close> on every text.
\<close>

definition env_replying :: "string \<Rightarrow> env" where
  "env_replying s = stub_env (\<lambda>n rq. reply s) (\<lambda>t. JSONDecodeError)"

definition env_raising :: "error \<Rightarrow> env" where
  "env_raising e = stub_env (\<lambda>n rq. Raises e) (\<lambda>t. JSONDecodeError)"

text \<open>
  A service whose second call raises a terminal error and whose other calls answer, with a
  \<^verbatim>\<open>json.loads\<close> that reads every answer as the same analysis.
\<close>

definition env_second_fails :: env where
  "env_second_fails =
     stub_env (\<lambda>n rq. if n = 1 then Raises (APIError ''boom'') else reply ''{}'')
       (\<lambda>t. Parsed (JObj [(''gen_ai_mentions'', JInt 4), (''capex_ai'', JStr ''$1B'')]))"

text \<open>
  A text of 1000 opening brackets, on which \<^verbatim>\<open>json.loads\<close> raises
  \<^verbatim>\<open>RecursionError\<close>, and a service that always answers it; on every other text this
  \<^verbatim>\<open>json.loads\<close> raises \<^verbatim>\<open>JSONDecodeError\<close>.
\<close>

definition deep_text :: string where
  "deep_text = replicate 1000 (CHR ''['')"

definition env_deep :: env where
  "env_deep =
     stub_env (\<lambda>n rq. reply deep_text)
       (\<lambda>t. if t = deep_text then Raised RecursionError else JSONDecodeError)"

text \<open>A work descriptor for one company, as phase 1 hands it to phase 2.\<close>

definition descriptor_for :: "string \<Rightarrow> (string \<times> json) list" where
  "descriptor_for c =
     [(''company'', JStr c), (''ticker'', JStr ''N/A''),
      (''tenk_url'', JStr (''https://sec.example/'' @ c))]"

text \<open>
  An empty cache directory that can be written, a clock that reads \<open>n\<close> microseconds at
  its \<open>n\<close>-th reading, no call made and no sleep yet.
\<close>

definition fresh_world :: world where
  "fresh_world =
     \<lparr>files = Map.empty, writable = True, clock = (\<lambda>n. int n), ticks = 0, calls = 0, sleeps = []\<rparr>"

text \<open>An agent named \<open>A\<close> with the cache in \<^verbatim>\<open>.cache\<close>, and a new orchestrator.\<close>

definition agent_A :: BaseAgent where
  "agent_A = BaseAgent_init Settings_default ''A'' ''role'' ''sub'' (Some (Cache_new ''.cache''))"

definition Orchestrator_new :: Orchestrator where
  "Orchestrator_new =
     \<lparr>orch_cache = Some (Cache_new ''.cache''), token_counter = TokenCounter_new,
      models_used = Map.empty\<rparr>"

section \<open>Usage ledger\<close>

text \<open>
  Claim C10. For every caller identity, \<open>track\<close> creates that caller's record
  zero-initialised on first use and then adds the reported increment to the caller's record
  and to the global total, leaving the records of the other callers as they were. In
  particular, starting from a ledger in which \<open>A\<close> has no record, tracking
  \<open>(A, m, 100, 50)\<close> and then \<open>(A, m, 10, 5)\<close> leaves \<open>A\<close> with input 110,
  output 55 and total 165.
\<close>

theorem track_accumulates:
  "usage_by_agent (track tc a m i out) a =
     Some (add (case usage_by_agent tc a of None \<Rightarrow> TokenUsage_new | Some u \<Rightarrow> u) i out)
   \<and> total_usage (track tc a m i out) = add (total_usage tc) i out
   \<and> (\<forall>b. b \<noteq> a \<longrightarrow> usage_by_agent (track tc a m i out) b = usage_by_agent tc b)
   \<and> (usage_by_agent tc a = None \<longrightarrow>
        usage_by_agent (track (track tc a m 100 50) a m 10 5) a =
          Some \<lparr>input_tokens = 110, output_tokens = 55, total_tokens = 165\<rparr>)"
  by (auto simp: track_def add_def TokenUsage_new_def Let_def domIff split: option.splits)

theorem track_accumulates_witness:
  "usage_by_agent TokenCounter_new ''A'' = None
   \<and> usage_by_agent (track (track TokenCounter_new ''A'' ''m'' 100 50) ''A'' ''m'' 10 5) ''A'' =
       Some \<lparr>input_tokens = 110, output_tokens = 55, total_tokens = 165\<rparr>
   \<and> usage_by_agent (track TokenCounter_new ''A'' ''m'' 100 50) ''B'' = None
   \<and> total_usage (track TokenCounter_new ''A'' ''m'' 100 50) =
       \<lparr>input_tokens = 100, output_tokens = 50, total_tokens = 150\<rparr>"
  using track_accumulates [of TokenCounter_new "''A''" "''m''" 100 50]
  by (simp add: TokenCounter_new_def TokenUsage_new_def add_def)

section \<open>Fingerprint\<close>

lemma filter_key_singleton:
  "distinct (map fst zs) \<Longrightarrow> k \<in> set zs \<Longrightarrow> filter (\<lambda>x. fst k = fst x) zs = [k]"
proof (induction zs)
  case Nil
  then show ?case by simp
next
  case (Cons z zs)
  show ?case
  proof (cases "k = z")
    case True
    have "filter (\<lambda>x. fst z = fst x) zs = []"
      using Cons.prems(1) by (auto simp: filter_empty_conv image_iff)
    with True show ?thesis by simp
  next
    case False
    with Cons.prems have in_tail: "k \<in> set zs" by simp
    then have "fst k \<noteq> fst z"
      using Cons.prems(1) by (auto simp: image_iff)
    with in_tail show ?thesis using Cons by simp
  qed
qed

lemma sort_key_permutation:
  assumes "distinct (map fst xs)" and "mset ys = mset xs"
  shows "sort_key fst ys = sort_key fst xs"
proof (rule properties_for_sort_key)
  show "mset (sort_key fst xs) = mset ys" using assms by simp
  show "sorted (map fst (sort_key fst xs))" by simp
next
  fix k assume k: "k \<in> set (sort_key fst xs)"
  have "mset (map fst ys) = mset (map fst xs)" using assms(2) by simp
  then have dy: "distinct (map fst ys)"
    using assms(1) mset_eq_imp_distinct_iff by blast
  have "mset (map fst (sort_key fst xs)) = mset (map fst xs)" by simp
  then have ds: "distinct (map fst (sort_key fst xs))"
    using assms(1) mset_eq_imp_distinct_iff by blast
  have "set ys = set xs" using assms(2) by (rule mset_eq_setD)
  then have "k \<in> set ys" using k by simp
  then show "filter (\<lambda>x. fst k = fst x) (sort_key fst xs) = filter (\<lambda>x. fst k = fst x) ys"
    using filter_key_singleton [OF dy] filter_key_singleton [OF ds k] by simp
qed

lemma get_cache_key_permutation:
  assumes "distinct (map fst kwargs)" and "mset kwargs' = mset kwargs"
  shows "get_cache_key E args kwargs' = get_cache_key E args kwargs"
proof -
  let ?f = "\<lambda>kv::string \<times> json. (fst kv, sort_keys (snd kv))"
  have "distinct (map fst (map ?f kwargs))" using assms(1) by (simp add: comp_def)
  moreover have "mset (map ?f kwargs') = mset (map ?f kwargs)" using assms(2) by simp
  ultimately have "sort_key fst (map ?f kwargs') = sort_key fst (map ?f kwargs)"
    by (rule sort_key_permutation)
  then show ?thesis by (simp add: get_cache_key_def)
qed

text \<open>
  Claim C5. The cache fingerprint is a function of the key parts alone: \<open>get_cache_key\<close>
  takes the positional and the keyword parts and nothing of the world (no clock, no file,
  no counter), so computing it again gives the same digest. Keyword parts whose keys are
  distinct, as those of a Python call are, give the same digest in every order. In every
  world, whatever its clock reads, \<open>cache_set\<close> called with the keyword parts in one
  order writes the file that the fingerprint of any other order names.
\<close>

theorem fingerprint_deterministic:
  assumes "distinct (map fst kwargs)" and "mset kwargs' = mset kwargs"
  shows "get_cache_key E args kwargs' = get_cache_key E args kwargs
       \<and> (\<forall>w. writable w \<longrightarrow>
             files (snd (cache_set E c v args kwargs' w))
                   (get_cache_path c (get_cache_key E args kwargs))
               = Some (Doc (Stamp (now w)) (Some v)))"
  using get_cache_key_permutation [OF assms]
  by (simp add: cache_set_def Let_def tick_def)

theorem fingerprint_deterministic_witness:
  "get_cache_key (stub_env (\<lambda>n rq. reply ''ok'') (\<lambda>s. JSONDecodeError)) []
     [(''context'', JStr ''c''), (''agent_name'', JStr ''A''), (''prompt'', JStr ''p'')]
   = get_cache_key (stub_env (\<lambda>n rq. reply ''ok'') (\<lambda>s. JSONDecodeError)) []
       [(''agent_name'', JStr ''A''), (''prompt'', JStr ''p''), (''context'', JStr ''c'')]
   \<and> files (snd (cache_set (stub_env (\<lambda>n rq. reply ''ok'') (\<lambda>s. JSONDecodeError)) (Cache_new ''.cache'')
                   (JInt 7) []
                   [(''context'', JStr ''c''), (''agent_name'', JStr ''A''), (''prompt'', JStr ''p'')]
                   fresh_world))
       (get_cache_path (Cache_new ''.cache'')
          (get_cache_key (stub_env (\<lambda>n rq. reply ''ok'') (\<lambda>s. JSONDecodeError)) []
             [(''agent_name'', JStr ''A''), (''prompt'', JStr ''p''), (''context'', JStr ''c'')]))
     = Some (Doc (Stamp 0) (Some (JInt 7)))"
proof -
  have d: "distinct (map fst
             [(''agent_name'', JStr ''A''), (''prompt'', JStr ''p''), (''context'', JStr ''c'')])"
    by simp
  have m: "mset [(''context'', JStr ''c''), (''agent_name'', JStr ''A''), (''prompt'', JStr ''p'')]
         = mset [(''agent_name'', JStr ''A''), (''prompt'', JStr ''p''), (''context'', JStr ''c'')]"
    by simp
  have w: "writable fresh_world" "now fresh_world = 0"
    by (simp_all add: fresh_world_def now_def)
  show ?thesis
    using fingerprint_deterministic [OF d m, of "stub_env (\<lambda>n rq. reply ''ok'') (\<lambda>s. JSONDecodeError)" "[]"
        "Cache_new ''.cache''" "JInt 7"] w
    by simp
qed

section \<open>Cache\<close>

text \<open>
  Claim C6. After a \<open>cache_set\<close> of \<open>v\<close> under key parts \<open>k\<close> that returned, a
  \<open>cache_get\<close> of \<open>k\<close> made while the file is as \<open>cache_set\<close> left it returns
  \<open>v\<close> when the time it reads is no more than the TTL after the time \<open>cache_set\<close>
  stamped (so immediately after, for a TTL that is not negative); when the age exceeds the
  TTL, it returns \<^verbatim>\<open>None\<close> and the file is deleted.
\<close>

theorem cache_set_then_get:
  assumes "cache_set E c v args kwargs w = (Inr (), w1)"
      and "files w2 (get_cache_path c (get_cache_key E args kwargs))
             = files w1 (get_cache_path c (get_cache_key E args kwargs))"
  shows "(now w2 - now w \<le> ttl c \<longrightarrow> cache_get E c args kwargs w2 = (v, tick w2))
       \<and> (now w2 - now w > ttl c \<longrightarrow>
            cache_get E c args kwargs w2 =
              (JNull, (tick w2)\<lparr>files :=
                 (files w2)(get_cache_path c (get_cache_key E args kwargs) := None)\<rparr>))"
  using assms
  by (auto simp: cache_set_def cache_get_def Let_def tick_def split: if_splits)

theorem cache_set_then_get_witness:
  "fst (cache_set (env_replying ''ok'') (Cache_new ''.cache'') (JInt 7) [] [(''k'', JStr ''x'')]
          fresh_world) = Inr ()
   \<and> fst (cache_get (env_replying ''ok'') (Cache_new ''.cache'') [] [(''k'', JStr ''x'')]
            (snd (cache_set (env_replying ''ok'') (Cache_new ''.cache'') (JInt 7) []
                    [(''k'', JStr ''x'')] fresh_world))) = JInt 7
   \<and> cache_get (env_replying ''ok'') (Cache_new ''.cache'') [] [(''k'', JStr ''x'')]
        ((snd (cache_set (env_replying ''ok'') (Cache_new ''.cache'') (JInt 7) []
                 [(''k'', JStr ''x'')] fresh_world))\<lparr>clock := \<lambda>n. 90000000000\<rparr>)
       = (JNull, fresh_world\<lparr>clock := \<lambda>n. 90000000000, ticks := 2\<rparr>)"
proof -
  let ?E = "env_replying ''ok''" and ?c = "Cache_new ''.cache''" and ?k = "[(''k'', JStr ''x'')]"
  let ?w1 = "snd (cache_set ?E ?c (JInt 7) [] ?k fresh_world)"
  have s: "cache_set ?E ?c (JInt 7) [] ?k fresh_world = (Inr (), ?w1)"
    by (simp add: cache_set_def Let_def tick_def fresh_world_def)
  have w1: "?w1 = fresh_world\<lparr>ticks := 1, files := [''.cache/x.json'' \<mapsto> Doc (Stamp 0) (Some (JInt 7))]\<rparr>"
    by (simp add: cache_set_def Let_def tick_def fresh_world_def now_def get_cache_path_def
          get_cache_key_def env_replying_def stub_env_def stub_digest_def Cache_new_def)
  have p: "get_cache_path ?c (get_cache_key ?E [] ?k) = ''.cache/x.json''"
    by (simp add: get_cache_path_def get_cache_key_def env_replying_def stub_env_def
          stub_digest_def Cache_new_def)
  have a: "now ?w1 - now fresh_world \<le> ttl ?c"
    unfolding w1 by (simp add: now_def fresh_world_def ttl_def Cache_new_def)
  have b: "now (?w1\<lparr>clock := \<lambda>n. 90000000000\<rparr>) - now fresh_world > ttl ?c"
    unfolding w1 by (simp add: now_def fresh_world_def ttl_def Cache_new_def)
  have f: "files (?w1\<lparr>clock := \<lambda>n. 90000000000\<rparr>) (get_cache_path ?c (get_cache_key ?E [] ?k))
             = files ?w1 (get_cache_path ?c (get_cache_key ?E [] ?k))"
    by simp
  have g1: "cache_get ?E ?c [] ?k ?w1 = (JInt 7, tick ?w1)"
    using cache_set_then_get [OF s refl] a by blast
  have g2: "cache_get ?E ?c [] ?k (?w1\<lparr>clock := \<lambda>n. 90000000000\<rparr>)
              = (JNull, (tick (?w1\<lparr>clock := \<lambda>n. 90000000000\<rparr>))\<lparr>files :=
                   (files (?w1\<lparr>clock := \<lambda>n. 90000000000\<rparr>))
                     (get_cache_path ?c (get_cache_key ?E [] ?k) := None)\<rparr>)"
    using cache_set_then_get [OF s f] b by blast
  have e: "(tick (?w1\<lparr>clock := \<lambda>n. 90000000000\<rparr>))\<lparr>files :=
              (files (?w1\<lparr>clock := \<lambda>n. 90000000000\<rparr>))
                (get_cache_path ?c (get_cache_key ?E [] ?k) := None)\<rparr>
           = fresh_world\<lparr>clock := \<lambda>n. 90000000000, ticks := 2\<rparr>"
    unfolding p unfolding w1 by (simp add: tick_def fresh_world_def)
  have s': "fst (cache_set ?E ?c (JInt 7) [] ?k fresh_world) = Inr ()"
    by (simp add: cache_set_def Let_def tick_def fresh_world_def)
  show ?thesis
    using s' g1 g2 e by simp
qed

section \<open>Retry and backoff\<close>

text \<open>
  Claim C2. When the service raises the rate-limit error on each of the three attempts, the
  maximum in force is 3 and the base delay is not negative, \<open>call_api_with_retry\<close>
  calls the service exactly three times, sleeps the base delay times 1 after the first
  failure and times 2 after the second, and raises the rate-limit error.
\<close>

theorem retry_exhaustion:
  assumes "\<forall>n<3. service E (calls w + n) (make_request ag prompt opts) = Raises RateLimitError"
      and "effective_max_retries S opts = 3"
      and "0 \<le> RETRY_DELAY S"
  shows "call_api_with_retry E S ag prompt opts w =
           (Inl RateLimitError,
            w\<lparr>calls := calls w + 3, sleeps := sleeps w @ [RETRY_DELAY S * 1, RETRY_DELAY S * 2]\<rparr>)"
proof -
  have s0: "service E (calls w) (make_request ag prompt opts) = Raises RateLimitError"
    using assms(1) [rule_format, of 0] by simp
  have s1: "service E (Suc (calls w)) (make_request ag prompt opts) = Raises RateLimitError"
    using assms(1) [rule_format, of 1] by simp
  have s2: "service E (Suc (Suc (calls w))) (make_request ag prompt opts) = Raises RateLimitError"
    using assms(1) [rule_format, of 2] by simp
  have l: "[0..<3] = [0, Suc 0, Suc (Suc 0)]" by (simp add: upt_rec)
  show ?thesis
    using assms(3) by (simp add: call_api_with_retry_def assms(2) l s0 s1 s2 sleep_def Let_def)
qed

theorem retry_exhaustion_witness:
  "call_api_with_retry (env_raising RateLimitError) Settings_default agent_A ''p'' no_opts
     fresh_world
   = (Inl RateLimitError, fresh_world\<lparr>calls := 3, sleeps := [2, 4]\<rparr>)"
proof -
  have a: "\<forall>n<3. service (env_raising RateLimitError) (calls fresh_world + n)
             (make_request agent_A ''p'' no_opts) = Raises RateLimitError"
    by (simp add: env_raising_def stub_env_def)
  have b: "effective_max_retries Settings_default no_opts = 3"
    by (simp add: effective_max_retries_def no_opts_def Settings_default_def)
  have c: "0 \<le> RETRY_DELAY Settings_default"
    by (simp add: Settings_default_def)
  show ?thesis
    using retry_exhaustion [OF a b c] by (simp add: fresh_world_def Settings_default_def)
qed

text \<open>
  Claim C7. When a first attempt is made (the maximum in force is positive) and the service
  raises on it an error that is not the rate-limit error, \<open>call_api_with_retry\<close> raises
  that error after exactly one call to the service, without sleeping.
\<close>

theorem terminal_failure_not_retried:
  assumes "service E (calls w) (make_request ag prompt opts) = Raises e"
      and "e \<noteq> RateLimitError"
      and "0 < effective_max_retries S opts"
  shows "call_api_with_retry E S ag prompt opts w = (Inl e, w\<lparr>calls := Suc (calls w)\<rparr>)
       \<and> sleeps (snd (call_api_with_retry E S ag prompt opts w)) = sleeps w"
proof -
  obtain rest where "[0..<nat (effective_max_retries S opts)] = 0 # rest"
    using assms(3) by (auto simp: upt_conv_Cons)
  then show ?thesis
    using assms(1,2) by (simp add: call_api_with_retry_def Let_def)
qed

theorem terminal_failure_not_retried_witness:
  "call_api_with_retry (env_raising (APIError ''bad request'')) Settings_default agent_A ''p''
     no_opts fresh_world
   = (Inl (APIError ''bad request''), fresh_world\<lparr>calls := 1\<rparr>)"
proof -
  have a: "service (env_raising (APIError ''bad request'')) (calls fresh_world)
             (make_request agent_A ''p'' no_opts) = Raises (APIError ''bad request'')"
    by (simp add: env_raising_def stub_env_def)
  have b: "APIError ''bad request'' \<noteq> RateLimitError" by simp
  have c: "0 < effective_max_retries Settings_default no_opts"
    by (simp add: effective_max_retries_def no_opts_def Settings_default_def)
  show ?thesis
    using terminal_failure_not_retried [OF a b c] by (simp add: fresh_world_def)
qed

section \<open>Invoker\<close>

lemma invoke_hit:
  assumes "caching S ag use_cache = Some c"
      and "files w (entry_path E c ag prompt context) = Some (Doc (Stamp t) (Some v))"
      and "\<not> now w - t > ttl c"
      and "truthy v" and "subscript v ''text'' = Inr txt"
  shows "invoke E S ag prompt context use_cache opts w = (Inr (txt, 0, 0), tick w)"
  using assms by (simp add: invoke_def cache_get_def entry_path_def Let_def)

lemma invoke_stores:
  assumes "caching S ag use_cache = Some c"
      and "invoke E S ag prompt context use_cache opts w = (Inr (txt, i, out), w1)"
  shows "\<exists>t v. files w1 (entry_path E c ag prompt context) = Some (Doc (Stamp t) (Some v))
           \<and> truthy v \<and> subscript v ''text'' = Inr txt"
  using assms
  by (auto simp: invoke_def cache_get_def cache_set_def entry_path_def Let_def tick_def
           split: option.splits cache_file.splits stamp.splits if_splits sum.splits prod.splits)

lemma invoke_terminal:
  assumes "\<forall>ch. caching S ag use_cache = Some ch \<longrightarrow> files w (entry_path E ch ag prompt ctx) = None"
      and "service E (calls w) (make_request ag (build_prompt ag prompt ctx) opts) = Raises e"
      and "e \<noteq> RateLimitError"
      and "0 < effective_max_retries S opts"
  shows "invoke E S ag prompt ctx use_cache opts w = (Inl e, w\<lparr>calls := Suc (calls w)\<rparr>)"
proof -
  obtain rest where "[0..<nat (effective_max_retries S opts)] = 0 # rest"
    using assms(4) by (auto simp: upt_conv_Cons)
  then have "call_api_with_retry E S ag (build_prompt ag prompt ctx) opts w
               = (Inl e, w\<lparr>calls := Suc (calls w)\<rparr>)"
    using assms(2,3) by (simp add: call_api_with_retry_def Let_def)
  then show ?thesis
    using assms(1)
    by (cases "caching S ag use_cache")
       (simp_all add: invoke_def cache_get_def entry_path_def Let_def)
qed

text \<open>Concrete runs of \<open>agent_A\<close> against a service that answers \<open>hello\<close>.\<close>

lemma caching_agent_A: "caching Settings_default agent_A True = Some (Cache_new ''.cache'')"
  by (simp add: caching_def Settings_default_def agent_A_def BaseAgent_init_def)

lemma entry_path_agent_A:
  "entry_path (stub_env svc loads) (Cache_new ''.cache'') agent_A p c = ''.cache/A.json''"
  by (simp add: entry_path_def get_cache_path_def get_cache_key_def key_parts_def stub_env_def
        stub_digest_def Cache_new_def agent_A_def BaseAgent_init_def)

lemma call_agent_A:
  "call_api_with_retry (env_replying ''hello'') Settings_default agent_A p no_opts w
     = (Inr (''hello'', 100, 50), w\<lparr>calls := Suc (calls w)\<rparr>)"
  by (simp add: call_api_with_retry_def effective_max_retries_def no_opts_def
        Settings_default_def upt_rec env_replying_def stub_env_def reply_def Let_def)

lemma first_invoke_agent_A:
  "invoke (env_replying ''hello'') Settings_default agent_A ''p'' ''c'' True no_opts fresh_world
     = (Inr (JStr ''hello'', 100, 50),
        fresh_world\<lparr>calls := 1, ticks := 1,
          files := [''.cache/A.json'' \<mapsto>
            Doc (Stamp 0) (Some (JObj [(''text'', JStr ''hello''), (''input_tokens'', JInt 100),
                                        (''output_tokens'', JInt 50)]))]\<rparr>)"
proof -
  have g: "cache_get (env_replying ''hello'') (Cache_new ''.cache'') []
             (key_parts agent_A ''p'' ''c'') fresh_world = (JNull, fresh_world)"
    by (simp add: cache_get_def fresh_world_def)
  have p: "get_cache_path (Cache_new ''.cache'')
             (get_cache_key (env_replying ''hello'') [] (key_parts agent_A ''p'' ''c''))
           = ''.cache/A.json''"
    using entry_path_agent_A [of "\<lambda>n rq. reply ''hello''" "\<lambda>t. JSONDecodeError" "''p''" "''c''"]
    by (simp add: entry_path_def env_replying_def)
  show ?thesis
    by (simp add: invoke_def caching_agent_A g call_agent_A cache_set_def p Let_def tick_def
          now_def)
       (simp add: fresh_world_def)
qed

text \<open>
  Claim C3. With caching enabled and a cache present, after an \<open>invoke\<close> that returned
  a text for (caller, prompt, context), an \<open>invoke\<close> for the same caller, prompt and
  context with \<^verbatim>\<open>use_cache\<close> true, made while the cache file is as the first one left
  it and the entry is not expired, returns that text with 0 input and 0 output tokens and
  makes no call to the service, whatever other keyword arguments it is given.
\<close>

theorem cache_hit_zero_cost:
  assumes "caching S ag True = Some c"
      and "invoke E S ag prompt context True opts w = (Inr (txt, i, out), w1)"
      and "files w2 (entry_path E c ag prompt context) = files w1 (entry_path E c ag prompt context)"
      and "unexpired c w2 (entry_path E c ag prompt context)"
  shows "invoke E S ag prompt context True opts' w2 = (Inr (txt, 0, 0), tick w2)
       \<and> calls (tick w2) = calls w2"
proof -
  obtain t v where f: "files w1 (entry_path E c ag prompt context) = Some (Doc (Stamp t) (Some v))"
    and v: "truthy v" "subscript v ''text'' = Inr txt"
    using invoke_stores [OF assms(1,2)] by blast
  have "\<not> now w2 - t > ttl c" using assms(3,4) f by (simp add: unexpired_def)
  then show ?thesis
    using invoke_hit [OF assms(1) _ _ v] f assms(3)
    by (simp add: tick_def)
qed

theorem cache_hit_zero_cost_witness:
  "invoke (env_replying ''hello'') Settings_default agent_A ''p'' ''c'' True no_opts
     (snd (invoke (env_replying ''hello'') Settings_default agent_A ''p'' ''c'' True no_opts
             fresh_world))
   = (Inr (JStr ''hello'', 0, 0),
      fresh_world\<lparr>calls := 1, ticks := 2,
        files := [''.cache/A.json'' \<mapsto>
          Doc (Stamp 0) (Some (JObj [(''text'', JStr ''hello''), (''input_tokens'', JInt 100),
                                      (''output_tokens'', JInt 50)]))]\<rparr>)"
proof -
  let ?w1 = "fresh_world\<lparr>calls := 1, ticks := 1,
        files := [''.cache/A.json'' \<mapsto>
          Doc (Stamp 0) (Some (JObj [(''text'', JStr ''hello''), (''input_tokens'', JInt 100),
                                      (''output_tokens'', JInt 50)]))]\<rparr>"
  have p: "entry_path (env_replying ''hello'') (Cache_new ''.cache'') agent_A ''p'' ''c''
             = ''.cache/A.json''"
    using entry_path_agent_A [of "\<lambda>n rq. reply ''hello''" "\<lambda>t. JSONDecodeError" "''p''" "''c''"]
    by (simp add: env_replying_def)
  have u: "unexpired (Cache_new ''.cache'') ?w1
             (entry_path (env_replying ''hello'') (Cache_new ''.cache'') agent_A ''p'' ''c'')"
    unfolding p by (simp add: unexpired_def now_def fresh_world_def ttl_def Cache_new_def)
  have h: "invoke (env_replying ''hello'') Settings_default agent_A ''p'' ''c'' True no_opts ?w1
          = (Inr (JStr ''hello'', 0, 0), tick ?w1)"
    using cache_hit_zero_cost [OF caching_agent_A first_invoke_agent_A refl u] by blast
  have t: "tick ?w1 = fresh_world\<lparr>calls := 1, ticks := 2,
        files := [''.cache/A.json'' \<mapsto>
          Doc (Stamp 0) (Some (JObj [(''text'', JStr ''hello''), (''input_tokens'', JInt 100),
                                      (''output_tokens'', JInt 50)]))]\<rparr>"
    by (simp add: tick_def fresh_world_def)
  show ?thesis
    unfolding first_invoke_agent_A snd_conv using h t by simp
qed

text \<open>
  Claim C4, as the code has it. When the lookup misses, the external call succeeds and the
  storage then refuses the write, the write is not tried again (no further call to the
  service, no file changed) and \<open>invoke\<close> raises the \<^verbatim>\<open>OSError\<close> of the write instead
  of returning the text and the token counts.
\<close>

theorem cache_write_failure_propagates:
  assumes "caching S ag use_cache = Some c"
      and "\<not> truthy (fst (cache_get E c [] (key_parts ag prompt context) w))"
      and "call_api_with_retry E S ag (build_prompt ag prompt context) opts
             (snd (cache_get E c [] (key_parts ag prompt context) w)) = (Inr (txt, i, out), w2)"
      and "\<not> writable w2"
  shows "invoke E S ag prompt context use_cache opts w = (Inl OSError, tick w2)
       \<and> calls (tick w2) = calls w2 \<and> files (tick w2) = files w2"
  using assms
  by (auto simp: invoke_def cache_set_def Let_def tick_def split: prod.splits)

theorem cache_write_failure_propagates_witness:
  "invoke (env_replying ''hello'') Settings_default agent_A ''p'' ''c'' True no_opts
     (fresh_world\<lparr>writable := False\<rparr>)
   = (Inl OSError, fresh_world\<lparr>writable := False, calls := 1, ticks := 1\<rparr>)"
proof -
  let ?w = "fresh_world\<lparr>writable := False\<rparr>"
  have g: "cache_get (env_replying ''hello'') (Cache_new ''.cache'') []
             (key_parts agent_A ''p'' ''c'') ?w = (JNull, ?w)"
    by (simp add: cache_get_def fresh_world_def)
  have a: "\<not> truthy (fst (cache_get (env_replying ''hello'') (Cache_new ''.cache'') []
             (key_parts agent_A ''p'' ''c'') ?w))"
    by (simp add: g)
  have b: "call_api_with_retry (env_replying ''hello'') Settings_default agent_A
             (build_prompt agent_A ''p'' ''c'') no_opts
             (snd (cache_get (env_replying ''hello'') (Cache_new ''.cache'') []
                     (key_parts agent_A ''p'' ''c'') ?w))
           = (Inr (''hello'', 100, 50), ?w\<lparr>calls := Suc (calls ?w)\<rparr>)"
    by (simp add: g call_agent_A)
  have c: "\<not> writable (?w\<lparr>calls := Suc (calls ?w)\<rparr>)" by simp
  show ?thesis
    using cache_write_failure_propagates [OF caching_agent_A a b c]
    by (simp add: tick_def fresh_world_def)
qed

text \<open>
  The claim as the specification words it fails on this run: the external call returns
  \<open>hello\<close> with 100 and 50 tokens, the storage refuses the write, and \<open>invoke\<close>
  raises.
\<close>

theorem cache_write_failure_counterexample:
  "call_api_with_retry (env_replying ''hello'') Settings_default agent_A
     (build_prompt agent_A ''p'' ''c'') no_opts (fresh_world\<lparr>writable := False\<rparr>)
     = (Inr (''hello'', 100, 50), fresh_world\<lparr>writable := False, calls := 1\<rparr>)
   \<and> fst (invoke (env_replying ''hello'') Settings_default agent_A ''p'' ''c'' True no_opts
            (fresh_world\<lparr>writable := False\<rparr>))
       \<noteq> Inr (JStr ''hello'', 100, 50)
   \<and> fst (invoke (env_replying ''hello'') Settings_default agent_A ''p'' ''c'' True no_opts
            (fresh_world\<lparr>writable := False\<rparr>))
       = Inl OSError"
proof -
  have g: "cache_get (env_replying ''hello'') (Cache_new ''.cache'') []
             (key_parts agent_A ''p'' ''c'') (fresh_world\<lparr>writable := False\<rparr>)
           = (JNull, fresh_world\<lparr>writable := False\<rparr>)"
    by (simp add: cache_get_def fresh_world_def)
  have i: "fst (invoke (env_replying ''hello'') Settings_default agent_A ''p'' ''c'' True no_opts
            (fresh_world\<lparr>writable := False\<rparr>)) = Inl OSError"
    by (simp add: invoke_def caching_agent_A g call_agent_A cache_set_def Let_def tick_def)
  show ?thesis
    by (simp add: i call_agent_A) (simp add: fresh_world_def)
qed

section \<open>Decode failures\<close>




lemma extract_json_deep: "extract_json env_deep (JStr deep_text) = Inl RecursionError"
  by (simp add: extract_json_def env_deep_def stub_env_def)








section \<open>Phase 2\<close>

lemma analyze_companies_append:
  "analyze_companies E S (xs @ ys) acc orch w =
     (case analyze_companies E S xs acc orch w of
        (Inl e, orch1, w1) \<Rightarrow> (Inl e, orch1, w1)
      | (Inr acc1, orch1, w1) \<Rightarrow> analyze_companies E S ys acc1 orch1 w1)"
proof (induction xs arbitrary: acc orch w)
  case Nil
  then show ?case by simp
next
  case (Cons x xs)
  show ?case
    by (simp add: Cons.IH Let_def split: option.splits prod.splits sum.splits)
qed

lemma analyze_companies_cache:
  "analyze_companies E S ds acc orch w = (r, orch1, w1) \<Longrightarrow> orch_cache orch1 = orch_cache orch"
proof (induction ds arbitrary: acc orch w)
  case Nil
  then show ?case by simp
next
  case (Cons d ds)
  from Cons.prems show ?case
    by (auto simp: Let_def split: option.splits prod.splits sum.splits if_splits dest!: Cons.IH)
qed

lemma make_analysis_company: "make_analysis c data urls = Inr a \<Longrightarrow> company a = c"
  by (auto simp: make_analysis_def split: json.splits)

lemma analyze_documents_company:
  "analyze_documents E S agent urls dc w = (Inr (a, i, out), w1) \<Longrightarrow> company a = self_company agent"
  by (auto simp: analyze_documents_def Let_def split: prod.splits sum.splits
           dest: make_analysis_company)

lemma analyze_companies_entries:
  "analyze_companies E S ds acc orch w = (Inr as, orch1, w1) \<Longrightarrow>
     \<exists>new. as = acc @ new \<and> map (\<lambda>a. Some (company a)) new = map (\<lambda>d. map_of d ''company'') ds"
proof (induction ds arbitrary: acc orch w)
  case Nil
  then show ?case by simp
next
  case (Cons d ds)
  from Cons.prems obtain c a i out w' orch' where
    c: "map_of d ''company'' = Some c"
    and a: "analyze_documents E S (CompanyAnalysisAgent_init E S c (orch_cache orch)) d None w
              = (Inr (a, i, out), w')"
    and r: "analyze_companies E S ds (acc @ [a]) orch' w' = (Inr as, orch1, w1)"
    by (auto simp: Let_def split: option.splits prod.splits sum.splits if_splits)
  from Cons.IH [OF r] obtain new where n: "as = (acc @ [a]) @ new"
    "map (\<lambda>a. Some (company a)) new = map (\<lambda>d. map_of d ''company'') ds" by blast
  have "company a = c"
    using analyze_documents_company [OF a] by (simp add: CompanyAnalysisAgent_init_def)
  with n c show ?case by (intro exI [of _ "a # new"]) simp
qed

lemma phase_2_abort:
  assumes "phase_2_analyze_companies E S orch pre w = (Inr finished, orch1, w1)"
      and "map_of d ''company'' = Some c"
      and "\<forall>ch. caching S (base (CompanyAnalysisAgent_init E S c (orch_cache orch))) True = Some ch \<longrightarrow>
             files w1 (entry_path E ch (base (CompanyAnalysisAgent_init E S c (orch_cache orch)))
                         (analysis_prompt E c None) (build_context E c d)) = None"
      and "service E (calls w1)
             (make_request (base (CompanyAnalysisAgent_init E S c (orch_cache orch)))
                (build_prompt (base (CompanyAnalysisAgent_init E S c (orch_cache orch)))
                   (analysis_prompt E c None) (build_context E c d)) no_opts) = Raises e"
      and "e \<noteq> RateLimitError"
      and "0 < MAX_RETRIES S"
  shows "phase_2_analyze_companies E S orch (pre @ d # post) w
           = (Inl e, orch1, w1\<lparr>calls := Suc (calls w1)\<rparr>)"
proof -
  have ch: "orch_cache orch1 = orch_cache orch"
    using assms(1) analyze_companies_cache by (simp add: phase_2_analyze_companies_def)
  have m: "0 < effective_max_retries S no_opts"
    using assms(6) by (simp add: effective_max_retries_def no_opts_def)
  have "invoke E S (base (CompanyAnalysisAgent_init E S c (orch_cache orch)))
          (analysis_prompt E c None) (build_context E c d) True no_opts w1
        = (Inl e, w1\<lparr>calls := Suc (calls w1)\<rparr>)"
    using invoke_terminal [OF assms(3) assms(4) assms(5) m] .
  then have "analyze_documents E S (CompanyAnalysisAgent_init E S c (orch_cache orch1)) d None w1
        = (Inl e, w1\<lparr>calls := Suc (calls w1)\<rparr>)"
    by (simp add: analyze_documents_def ch CompanyAnalysisAgent_init_def)
  then show ?thesis
    using assms(1,2)
    by (simp add: phase_2_analyze_companies_def analyze_companies_append Let_def)
qed

text \<open>Phase 2 over the descriptor of \<open>X\<close> alone, against \<open>env_second_fails\<close>.\<close>

lemma phase_2_X:
  "phase_2_analyze_companies env_second_fails Settings_default Orchestrator_new
     [descriptor_for ''X''] fresh_world
   = (Inr [\<lparr>company = JStr ''X'', gen_ai_mentions = JInt 4, ml_mentions = JInt 0,
            capex_ai = JStr ''$1B'', cfo_quote = JStr ''No quote found'', key_insights = JStr [],
            documents_analyzed = [JStr ''https://sec.example/X'', JStr []]\<rparr>],
      Orchestrator_new\<lparr>models_used := [''XAnalyst'' \<mapsto> ''claude-sonnet-4-5-20250929''],
         token_counter := track TokenCounter_new ''XAnalyst'' ''claude-sonnet-4-5-20250929'' 100 50\<rparr>,
      fresh_world\<lparr>calls := 1, ticks := 1,
        files := [''.cache/XAnalyst.json'' \<mapsto>
          Doc (Stamp 0) (Some (JObj [(''text'', JStr ''{}''), (''input_tokens'', JInt 100),
                                      (''output_tokens'', JInt 50)]))]\<rparr>)"
  by (simp add: phase_2_analyze_companies_def descriptor_for_def CompanyAnalysisAgent_init_def
        analyze_documents_def invoke_def caching_def Settings_default_def BaseAgent_init_def
        Orchestrator_new_def cache_get_def fresh_world_def call_api_with_retry_def
        effective_max_retries_def no_opts_def upt_rec env_second_fails_def stub_env_def reply_def
        cache_set_def Let_def tick_def now_def extract_json_def make_analysis_def dict_get_def
        capex_preview_def stub_str_def stub_digest_def get_cache_path_def get_cache_key_def
        key_parts_def Cache_new_def get_model_for_agent_def get_max_tokens_for_agent_def
        analysis_prompt_def build_context_def)

text \<open>
  Claim C1, as the code has it. When the analyzers of the descriptors before \<open>d\<close> have
  returned, the cache holds nothing for the analyzer of \<open>d\<close>, and the service raises a
  terminal error on that analyzer's call, the error leaves \<open>analyze_documents\<close> and phase 2:
  phase 2 raises it after that one call, returns no list, and the descriptors after \<open>d\<close>
  are not analysed. Whenever phase 2 does return a list, the list has one analysis per
  descriptor, in the order of the descriptors, each for the company of its descriptor.
\<close>

theorem phase_2_terminal_error_aborts:
  assumes "phase_2_analyze_companies E S orch pre w = (Inr finished, orch1, w1)"
      and "map_of d ''company'' = Some c"
      and "\<forall>ch. caching S (base (CompanyAnalysisAgent_init E S c (orch_cache orch))) True = Some ch \<longrightarrow>
             files w1 (entry_path E ch (base (CompanyAnalysisAgent_init E S c (orch_cache orch)))
                         (analysis_prompt E c None) (build_context E c d)) = None"
      and "service E (calls w1)
             (make_request (base (CompanyAnalysisAgent_init E S c (orch_cache orch)))
                (build_prompt (base (CompanyAnalysisAgent_init E S c (orch_cache orch)))
                   (analysis_prompt E c None) (build_context E c d)) no_opts) = Raises e"
      and "e \<noteq> RateLimitError"
      and "0 < MAX_RETRIES S"
  shows "phase_2_analyze_companies E S orch (pre @ d # post) w
           = (Inl e, orch1, w1\<lparr>calls := Suc (calls w1)\<rparr>)
       \<and> (\<forall>ds as orch' w'.
             phase_2_analyze_companies E S orch ds w = (Inr as, orch', w') \<longrightarrow>
             map (\<lambda>a. Some (company a)) as = map (\<lambda>d. map_of d ''company'') ds)"
proof -
  have "map (\<lambda>a. Some (company a)) as = map (\<lambda>d. map_of d ''company'') ds"
    if "phase_2_analyze_companies E S orch ds w = (Inr as, orch', w')" for ds as orch' w'
    using analyze_companies_entries [of E S ds "[]" orch w as orch' w'] that
    by (auto simp: phase_2_analyze_companies_def)
  then show ?thesis
    using phase_2_abort [OF assms] by blast
qed

theorem phase_2_terminal_error_aborts_witness:
  "phase_2_analyze_companies env_second_fails Settings_default Orchestrator_new
     [descriptor_for ''X'', descriptor_for ''Y'', descriptor_for ''Z''] fresh_world
   = (Inl (APIError ''boom''),
      Orchestrator_new\<lparr>models_used := [''XAnalyst'' \<mapsto> ''claude-sonnet-4-5-20250929''],
         token_counter := track TokenCounter_new ''XAnalyst'' ''claude-sonnet-4-5-20250929'' 100 50\<rparr>,
      fresh_world\<lparr>calls := 2, ticks := 1,
        files := [''.cache/XAnalyst.json'' \<mapsto>
          Doc (Stamp 0) (Some (JObj [(''text'', JStr ''{}''), (''input_tokens'', JInt 100),
                                      (''output_tokens'', JInt 50)]))]\<rparr>)"
proof -
  let ?w1 = "fresh_world\<lparr>calls := 1, ticks := 1,
        files := [''.cache/XAnalyst.json'' \<mapsto>
          Doc (Stamp 0) (Some (JObj [(''text'', JStr ''{}''), (''input_tokens'', JInt 100),
                                      (''output_tokens'', JInt 50)]))]\<rparr>"
  let ?agent = "base (CompanyAnalysisAgent_init env_second_fails Settings_default (JStr ''Y'')
                        (orch_cache Orchestrator_new))"
  have c: "map_of (descriptor_for ''Y'') ''company'' = Some (JStr ''Y'')"
    by (simp add: descriptor_for_def)
  have miss: "\<forall>ch. caching Settings_default ?agent True = Some ch \<longrightarrow>
             files ?w1 (entry_path env_second_fails ch ?agent
                          (analysis_prompt env_second_fails (JStr ''Y'') None)
                          (build_context env_second_fails (JStr ''Y'') (descriptor_for ''Y''))) = None"
    by (simp add: caching_def Settings_default_def CompanyAnalysisAgent_init_def
          BaseAgent_init_def Orchestrator_new_def entry_path_def get_cache_path_def
          get_cache_key_def key_parts_def env_second_fails_def stub_env_def stub_digest_def
          stub_str_def Cache_new_def fresh_world_def)
  have fails: "service env_second_fails (calls ?w1)
             (make_request ?agent
                (build_prompt ?agent (analysis_prompt env_second_fails (JStr ''Y'') None)
                   (build_context env_second_fails (JStr ''Y'') (descriptor_for ''Y''))) no_opts)
           = Raises (APIError ''boom'')"
    by (simp add: env_second_fails_def stub_env_def fresh_world_def)
  have t: "APIError ''boom'' \<noteq> RateLimitError" by simp
  have r: "0 < MAX_RETRIES Settings_default" by (simp add: Settings_default_def)
  have "phase_2_analyze_companies env_second_fails Settings_default Orchestrator_new
          ([descriptor_for ''X''] @ descriptor_for ''Y'' # [descriptor_for ''Z'']) fresh_world
        = (Inl (APIError ''boom''),
           Orchestrator_new\<lparr>models_used := [''XAnalyst'' \<mapsto> ''claude-sonnet-4-5-20250929''],
              token_counter :=
                track TokenCounter_new ''XAnalyst'' ''claude-sonnet-4-5-20250929'' 100 50\<rparr>,
           ?w1\<lparr>calls := Suc (calls ?w1)\<rparr>)"
    using phase_2_terminal_error_aborts [OF phase_2_X c miss fails t r] by blast
  then show ?thesis
    by (simp add: fresh_world_def)
qed

text \<open>
  The claim as the specification words it fails on this run of three descriptors: the
  second call to the service raises a terminal error, and phase 2 returns no list of three
  entries but raises that error, after two calls to the service; the third descriptor is
  never analysed.
\<close>

theorem phase_2_isolation_counterexample:
  "fst (phase_2_analyze_companies env_second_fails Settings_default Orchestrator_new
          [descriptor_for ''X'', descriptor_for ''Y'', descriptor_for ''Z''] fresh_world)
     = Inl (APIError ''boom'')
   \<and> calls (snd (snd (phase_2_analyze_companies env_second_fails Settings_default
                         Orchestrator_new
                         [descriptor_for ''X'', descriptor_for ''Y'', descriptor_for ''Z'']
                         fresh_world))) = 2"
  by (simp add: phase_2_analyze_companies_def descriptor_for_def CompanyAnalysisAgent_init_def
        analyze_documents_def invoke_def caching_def Settings_default_def BaseAgent_init_def
        Orchestrator_new_def cache_get_def fresh_world_def call_api_with_retry_def
        effective_max_retries_def no_opts_def upt_rec env_second_fails_def stub_env_def reply_def
        cache_set_def Let_def tick_def now_def extract_json_def make_analysis_def dict_get_def
        capex_preview_def stub_str_def stub_digest_def get_cache_path_def get_cache_key_def
        key_parts_def Cache_new_def get_model_for_agent_def get_max_tokens_for_agent_def
        analysis_prompt_def build_context_def)

end
